theory Spec2Isabelle
  imports Main "HOL-Library.Word" "HOL-Library.Signed_Division"
begin

unbundle bit_operations_syntax

section \<open>telloterm: joystick profiles, stick normalisation and button dispatch (joystick.go)\<close>

subsection \<open>Data\<close>

text \<open>
  Go's \<open>int16\<close> and \<open>uint32\<close> are words; addition, negation and narrowing wrap.
  The fields of \<open>tello.StickMessage\<close> are \<open>int16\<close> (they are passed to \<open>intAbs\<close>),
  \<open>joystick.State\<close> holds \<open>AxisData []int\<close> and the bit mask \<open>Buttons uint32\<close>.
  A raw axis value is a Go \<open>int\<close> (32 or 64 bits); it is modelled as \<open>int\<close>, and the
  conversion \<open>int16(v)\<close> keeps the low 16 bits, which is \<open>word_of_int\<close>.
\<close>

type_synonym int16 = "16 word"
type_synonym uint32 = "32 word"

record StickMessage =
  Rx :: int16
  Ry :: int16
  Lx :: int16
  Ly :: int16

record State =
  AxisData :: "int list"
  Buttons :: uint32

record joystickConfig =
  axes :: "int list"
  buttons :: "nat list"
  features :: "bool list"

text \<open>Sticks (\<open>iota\<close> constants).\<close>

definition axLeftX :: nat where "axLeftX = 0"
definition axLeftY :: nat where "axLeftY = 1"
definition axRightX :: nat where "axRightX = 2"
definition axRightY :: nat where "axRightY = 3"
definition axL1 :: nat where "axL1 = 4"
definition axL2 :: nat where "axL2 = 5"
definition axR1 :: nat where "axR1 = 6"
definition axR2 :: nat where "axR2 = 7"

text \<open>Buttons.\<close>

definition btnX :: nat where "btnX = 0"
definition btnCircle :: nat where "btnCircle = 1"
definition btnTriangle :: nat where "btnTriangle = 2"
definition btnSquare :: nat where "btnSquare = 3"
definition btnL1 :: nat where "btnL1 = 4"
definition btnL2 :: nat where "btnL2 = 5"
definition btnL3 :: nat where "btnL3 = 6"
definition btnR1 :: nat where "btnR1 = 7"
definition btnR2 :: nat where "btnR2 = 8"
definition btnR3 :: nat where "btnR3 = 9"
definition btnDL :: nat where "btnDL = 10"
definition btnDR :: nat where "btnDR = 11"
definition btnDU :: nat where "btnDU = 12"
definition btnDD :: nat where "btnDD = 13"
definition btnUnknown :: nat where "btnUnknown = 14"

text \<open>Features.\<close>

definition flipsEnabled :: nat where "flipsEnabled = 0"

definition deadZone :: int16 where "deadZone = 2000"

lemmas ax_defs = axLeftX_def axLeftY_def axRightX_def axRightY_def

lemmas btn_defs = btnX_def btnCircle_def btnTriangle_def btnSquare_def btnL1_def btnL2_def
  btnL3_def btnR1_def btnR2_def btnR3_def btnDL_def btnDR_def btnDU_def btnDD_def

subsection \<open>Profile tables\<close>

text \<open>
  A Go slice literal with keyed elements, \<open>[]T{k1: v1, k2: v2, ...}\<close>: its length is the
  largest key plus one, and every index without an element holds the zero value of \<open>T\<close>.
\<close>

definition sliceLit :: "'a \<Rightarrow> (nat \<times> 'a) list \<Rightarrow> 'a list" where
  "sliceLit zero kvs =
     (if kvs = [] then []
      else map (\<lambda>i. case map_of kvs i of None \<Rightarrow> zero | Some v \<Rightarrow> v)
             [0 ..< Suc (fold max (map fst kvs) 0)])"

definition dualShock4Config :: joystickConfig where
  "dualShock4Config = \<lparr>
     axes = sliceLit 0 [(axLeftX, 0), (axLeftY, 1), (axRightX, 3), (axRightY, 4)],
     buttons = sliceLit 0 [(btnX, 0), (btnCircle, 1), (btnTriangle, 2), (btnSquare, 3),
       (btnL1, 4), (btnL2, 6), (btnR1, 5), (btnR2, 7)],
     features = sliceLit False [(flipsEnabled, False)] \<rparr>"

definition eightBitDoSF30Pro :: joystickConfig where
  "eightBitDoSF30Pro = \<lparr>
     axes = sliceLit 0 [(axLeftX, 0), (axLeftY, 1), (axRightX, 2), (axRightY, 3)],
     buttons = sliceLit 0 [(btnX, 0), (btnCircle, 1), (btnTriangle, 3), (btnSquare, 2),
       (btnL1, 4), (btnL2, 6), (btnR1, 5), (btnR2, 7),
       (btnDL, 13), (btnDR, 14), (btnDU, 15), (btnDD, 16)],
     features = sliceLit False [(flipsEnabled, True)] \<rparr>"

definition dualShock4ConfigWin :: joystickConfig where
  "dualShock4ConfigWin = \<lparr>
     axes = sliceLit 0 [(axLeftX, 0), (axLeftY, 1), (axRightX, 2), (axRightY, 3)],
     buttons = sliceLit 0 [(btnX, 1), (btnCircle, 2), (btnTriangle, 3), (btnSquare, 0),
       (btnL1, 4), (btnL2, 6), (btnR1, 5), (btnR2, 7)],
     features = sliceLit False [(flipsEnabled, False)] \<rparr>"

definition tflightHotasXConfig :: joystickConfig where
  "tflightHotasXConfig = \<lparr>
     axes = sliceLit 0 [(axLeftX, 4), (axLeftY, 2), (axRightX, 0), (axRightY, 1)],
     buttons = sliceLit 0 [(btnR1, 0), (btnL1, 1), (btnR3, 2), (btnL3, 3), (btnSquare, 4),
       (btnX, 5), (btnCircle, 6), (btnTriangle, 7), (btnR2, 8), (btnL2, 9)],
     features = sliceLit False [(flipsEnabled, False)] \<rparr>"

definition tflightSteamControllerConfig :: joystickConfig where
  "tflightSteamControllerConfig = \<lparr>
     axes = sliceLit 0 [(axLeftX, 0), (axLeftY, 1), (axRightX, 2), (axRightY, 3)],
     buttons = sliceLit 0 [(btnR1, 7), (btnL1, 6), (btnR3, 14), (btnL3, 13), (btnSquare, 4),
       (btnX, 2), (btnCircle, 3), (btnTriangle, 5), (btnR2, 9), (btnL2, 8),
       (btnDL, 19), (btnDR, 20), (btnDU, 17), (btnDD, 18)],
     features = sliceLit False [(flipsEnabled, True)] \<rparr>"

subsection \<open>Run-time faults and slice indexing\<close>

text \<open>
  Indexing a Go slice outside \<open>0 \<le> i < len\<close> panics (\<open>index out of range\<close>); nothing in
  joystick.go recovers, so the process ends there.
\<close>

datatype fault = IndexOutOfRange

definition index :: "'a list \<Rightarrow> nat \<Rightarrow> fault + 'a" where
  "index xs i = (if i < length xs then Inr (xs ! i) else Inl IndexOutOfRange)"

definition indexInt :: "'a list \<Rightarrow> int \<Rightarrow> fault + 'a" where
  "indexInt xs i =
     (if 0 \<le> i \<and> i < int (length xs) then Inr (xs ! nat i) else Inl IndexOutOfRange)"

definition thenDo :: "fault + 'a \<Rightarrow> ('a \<Rightarrow> fault + 'b) \<Rightarrow> fault + 'b" where
  "thenDo m k = (case m of Inl f \<Rightarrow> Inl f | Inr a \<Rightarrow> k a)"

text \<open>\<open>jsState.AxisData[jsConfig.axes[a]]\<close>\<close>

definition axisData :: "joystickConfig \<Rightarrow> State \<Rightarrow> nat \<Rightarrow> fault + int" where
  "axisData cfg jsState a = thenDo (index (axes cfg) a) (indexInt (AxisData jsState))"

text \<open>\<open>jsConfig.buttons[b]\<close>\<close>

definition button :: "joystickConfig \<Rightarrow> nat \<Rightarrow> fault + nat" where
  "button cfg b = index (buttons cfg) b"

subsection \<open>Stick normalisation (readJoystick, lines 249-297)\<close>

text \<open>Lines 249-271: narrowing of the four raw axis values, with the clamp at 32768.\<close>

definition readAxes :: "joystickConfig \<Rightarrow> State \<Rightarrow> StickMessage \<Rightarrow> fault + StickMessage" where
  "readAxes cfg jsState sm =
     thenDo (axisData cfg jsState axLeftX) (\<lambda>lx.
     let sm = sm\<lparr>Rx := (if lx = 32768 then 32767 else word_of_int lx)\<rparr> in
     thenDo (axisData cfg jsState axLeftY) (\<lambda>ly.
     let sm = sm\<lparr>Ry := (if ly = 32768 then - 32767 else - word_of_int ly)\<rparr> in
     thenDo (axisData cfg jsState axRightX) (\<lambda>rx.
     let sm = sm\<lparr>Lx := (if rx = 32768 then 32767 else word_of_int rx)\<rparr> in
     thenDo (axisData cfg jsState axRightY) (\<lambda>ry.
     let sm = sm\<lparr>Ly := (if ry = 32768 then - 32767 else - word_of_int ry)\<rparr> in
     Inr sm))))"

definition intAbs :: "int16 \<Rightarrow> int16" where
  "intAbs x = (if x <s 0 then - x else x)"

text \<open>Lines 273-284.\<close>

definition applyDeadZone :: "StickMessage \<Rightarrow> StickMessage" where
  "applyDeadZone sm =
     (let sm = (if intAbs (Lx sm) <s deadZone then sm\<lparr>Lx := 0\<rparr> else sm);
          sm = (if intAbs (Ly sm) <s deadZone then sm\<lparr>Ly := 0\<rparr> else sm);
          sm = (if intAbs (Rx sm) <s deadZone then sm\<lparr>Rx := 0\<rparr> else sm);
          sm = (if intAbs (Ry sm) <s deadZone then sm\<lparr>Ry := 0\<rparr> else sm)
      in sm)"

definition div16 :: "int16 \<Rightarrow> int16 \<Rightarrow> int16" where
  \<comment> \<open>Go's \<open>/\<close> on \<open>int16\<close>: the quotient truncated towards zero (the divisor is never 0 here).\<close>
  "div16 a b = word_of_int (sint a sdiv sint b)"

text \<open>\<open>state.Buttons & (1 << n) != 0\<close>; the shift is a \<open>uint32\<close> shift, 0 from \<open>n = 32\<close> on.\<close>

definition isDown :: "uint32 \<Rightarrow> nat \<Rightarrow> bool" where
  "isDown bs n \<longleftrightarrow> bs AND push_bit n 1 \<noteq> 0"

subsection \<open>What a poll cycle does to the outside\<close>

datatype action = SetSlowMode | Bounce | SetFastMode | PalmLand | ThrowTakeOff | TakeOff
  | TakePicture | Land | LeftFlip | RightFlip | ForwardFlip | BackFlip

text \<open>The lines written by \<open>fmt.Println\<close> in test mode (four of them start with a non-ASCII glyph).\<close>

datatype line = R2_pressed | R2_released | L1_pressed | L2_pressed | R1_pressed | L3_pressed
  | R3_pressed | Square_pressed | Triangle_pressed | Circle_pressed | X_pressed
  | DPad_Left_pressed | DPad_Right_pressed | DPad_Up_pressed | DPad_Down_pressed

datatype effect =
    Println line
  | Printf_JS StickMessage   \<comment> \<open>\<open>fmt.Printf("JS: Lx: %d, Ly: %d, Rx: %d, Ry: %d\\n", ...)\<close>\<close>
  | StickChan StickMessage   \<comment> \<open>\<open>stickChan <- sm\<close>\<close>
  | Drone action             \<comment> \<open>a call of a method of \<open>drone\<close>\<close>

text \<open>
  A piece of the loop body yields the effects it performed, in order, and either a fault
  (the panic that ended it) or its result.
\<close>

type_synonym 'a prog = "effect list \<times> (fault + 'a)"

definition ok :: "'a \<Rightarrow> 'a prog" where
  "ok a = ([], Inr a)"

definition emit :: "effect \<Rightarrow> unit prog" where
  "emit e = ([e], Inr ())"

definition may :: "fault + 'a \<Rightarrow> 'a prog" where
  "may r = ([], r)"

definition andThen :: "'a prog \<Rightarrow> ('a \<Rightarrow> 'b prog) \<Rightarrow> 'b prog" where
  "andThen m k =
     (case m of
        (es, Inl f) \<Rightarrow> (es, Inl f)
      | (es, Inr a) \<Rightarrow> (case k a of (es', r) \<Rightarrow> (es @ es', r)))"

text \<open>Lines 286-297: precision mode while R2 is down.\<close>

definition precision ::
  "bool \<Rightarrow> joystickConfig \<Rightarrow> State \<Rightarrow> State \<Rightarrow> StickMessage \<Rightarrow> StickMessage prog" where
  "precision test cfg jsState prevState sm =
     andThen (may (button cfg btnR2)) (\<lambda>r2.
       if isDown (Buttons jsState) r2 then
         andThen (if test \<and> \<not> isDown (Buttons prevState) r2
                  then emit (Println R2_pressed) else ok ()) (\<lambda>_.
         ok (sm\<lparr>Lx := div16 (Lx sm) 3, Ly := div16 (Ly sm) 3,
                Rx := div16 (Rx sm) 3, Ry := div16 (Ry sm) 3\<rparr>))
       else
         andThen (if test \<and> isDown (Buttons prevState) r2
                  then emit (Println R2_released) else ok ()) (\<lambda>_.
         ok sm))"

text \<open>
  Field by field: what lines 273-284 do to one field, and what lines 286-294 do to it,
  \<open>down\<close> telling whether the R2 bit is set in \<open>jsState.Buttons\<close>.
\<close>

definition deadZoned :: "int16 \<Rightarrow> int16" where
  "deadZoned v = (if intAbs v <s deadZone then 0 else v)"

definition scaled :: "bool \<Rightarrow> int16 \<Rightarrow> int16" where
  "scaled down v = (if down then div16 v 3 else v)"

text \<open>What lines 286-297 print in test mode about R2 (a rising or a falling edge).\<close>

definition r2Lines :: "bool \<Rightarrow> bool \<Rightarrow> bool \<Rightarrow> effect list" where
  "r2Lines test down wasDown =
     (if down then (if test \<and> \<not> wasDown then [Println R2_pressed] else [])
      else (if test \<and> wasDown then [Println R2_released] else []))"

text \<open>Lines 249-297 together: what the pass leaves in \<open>sm\<close> before it is sent.\<close>

definition normalizeSticks ::
  "bool \<Rightarrow> joystickConfig \<Rightarrow> State \<Rightarrow> State \<Rightarrow> StickMessage \<Rightarrow> StickMessage prog" where
  "normalizeSticks test cfg jsState prevState sm =
     andThen (may (readAxes cfg jsState sm)) (\<lambda>sm.
     precision test cfg jsState prevState (applyDeadZone sm))"

text \<open>Lines 299-305.\<close>

definition sendSticks :: "bool \<Rightarrow> StickMessage \<Rightarrow> unit prog" where
  "sendSticks test sm =
     (if test then
        (if Lx sm \<noteq> 0 \<or> Ly sm \<noteq> 0 \<or> Rx sm \<noteq> 0 \<or> Ry sm \<noteq> 0
         then emit (Printf_JS sm) else ok ())
      else emit (StickChan sm))"

text \<open>
  \<open>if jsState.Buttons&(1<<jsConfig.buttons[b]) != 0 && prevState.Buttons&(1<<jsConfig.buttons[b]) == 0 { body }\<close>:
  the table is indexed before anything else, so a missing entry panics whatever the masks hold.
\<close>

definition pressedThisCycle :: "State \<Rightarrow> State \<Rightarrow> nat \<Rightarrow> bool" where
  "pressedThisCycle jsState prevState n \<longleftrightarrow>
     isDown (Buttons jsState) n \<and> \<not> isDown (Buttons prevState) n"

definition onPressed ::
  "joystickConfig \<Rightarrow> State \<Rightarrow> State \<Rightarrow> nat \<Rightarrow> unit prog \<Rightarrow> unit prog" where
  "onPressed cfg jsState prevState b body =
     andThen (may (button cfg b)) (\<lambda>n.
       if pressedThisCycle jsState prevState n then body else ok ())"

text \<open>Lines 307-371. \<open>flying\<close> is what \<open>drone.GetFlightData().Flying\<close> answers in this cycle.\<close>

definition buttonActions :: "bool \<Rightarrow> joystickConfig \<Rightarrow> bool \<Rightarrow> State \<Rightarrow> State \<Rightarrow> unit prog" where
  "buttonActions test cfg flying jsState prevState =
     andThen (onPressed cfg jsState prevState btnL1
       (if test then emit (Println L1_pressed) else emit (Drone SetSlowMode))) (\<lambda>_.
     andThen (onPressed cfg jsState prevState btnL2
       (if test then emit (Println L2_pressed) else emit (Drone Bounce))) (\<lambda>_.
     andThen (onPressed cfg jsState prevState btnR1
       (if test then emit (Println R1_pressed) else emit (Drone SetFastMode))) (\<lambda>_.
     andThen (onPressed cfg jsState prevState btnL3
       (if test then emit (Println L3_pressed) else ok ())) (\<lambda>_.
     andThen (onPressed cfg jsState prevState btnR3
       (if test then emit (Println R3_pressed) else ok ())) (\<lambda>_.
     andThen (onPressed cfg jsState prevState btnSquare
       (if test then emit (Println Square_pressed)
        else if flying then emit (Drone PalmLand) else emit (Drone ThrowTakeOff))) (\<lambda>_.
     andThen (onPressed cfg jsState prevState btnTriangle
       (if test then emit (Println Triangle_pressed) else emit (Drone TakeOff))) (\<lambda>_.
     andThen (onPressed cfg jsState prevState btnCircle
       (if test then emit (Println Circle_pressed) else emit (Drone TakePicture))) (\<lambda>_.
     onPressed cfg jsState prevState btnX
       (if test then emit (Println X_pressed) else emit (Drone Land))))))))))"

text \<open>Lines 373-403: the flip feature.\<close>

definition flipFeature :: "bool \<Rightarrow> joystickConfig \<Rightarrow> State \<Rightarrow> State \<Rightarrow> unit prog" where
  "flipFeature test cfg jsState prevState =
     andThen (may (index (features cfg) flipsEnabled)) (\<lambda>enabled.
       if enabled then
         andThen (onPressed cfg jsState prevState btnDL
           (if test then emit (Println DPad_Left_pressed) else emit (Drone LeftFlip))) (\<lambda>_.
         andThen (onPressed cfg jsState prevState btnDR
           (if test then emit (Println DPad_Right_pressed) else emit (Drone RightFlip))) (\<lambda>_.
         andThen (onPressed cfg jsState prevState btnDU
           (if test then emit (Println DPad_Up_pressed) else emit (Drone ForwardFlip))) (\<lambda>_.
         onPressed cfg jsState prevState btnDD
           (if test then emit (Println DPad_Down_pressed) else emit (Drone BackFlip)))))
       else ok ())"

subsection \<open>The poll loop (readJoystick)\<close>

text \<open>
  One pass through the body of the \<open>for\<close> loop. The variables that live across passes are
  \<open>sm\<close> and \<open>prevState\<close>; \<open>jsState\<close> is what \<open>js.Read()\<close> returned (a read error is only
  logged, the pass goes on with that value), and \<open>jsConfig\<close> is the profile chosen by
  \<open>setupJoystick\<close>. The sleep at the end of the pass is not modelled.
\<close>

definition readJoystickCycle ::
  "bool \<Rightarrow> joystickConfig \<Rightarrow> State \<Rightarrow> bool \<Rightarrow> StickMessage \<times> State \<Rightarrow> (StickMessage \<times> State) prog" where
  "readJoystickCycle test cfg jsState flying vars =
     (case vars of (sm, prevState) \<Rightarrow>
        andThen (normalizeSticks test cfg jsState prevState sm) (\<lambda>sm.
        andThen (sendSticks test sm) (\<lambda>_.
        andThen (buttonActions test cfg flying jsState prevState) (\<lambda>_.
        andThen (flipFeature test cfg jsState prevState) (\<lambda>_.
        ok (sm, jsState))))))"

text \<open>
  The loop never ends by itself; it is run here over the reads the device delivers, one
  pass per read, and stops early only at a panic.
\<close>

fun readJoystickLoop ::
  "bool \<Rightarrow> joystickConfig \<Rightarrow> (State \<times> bool) list \<Rightarrow> StickMessage \<times> State \<Rightarrow> (StickMessage \<times> State) prog" where
  "readJoystickLoop test cfg [] vars = ok vars"
| "readJoystickLoop test cfg (r # reads) vars =
     andThen (readJoystickCycle test cfg (fst r) (snd r) vars) (readJoystickLoop test cfg reads)"

text \<open>\<open>var sm tello.StickMessage; var jsState, prevState joystick.State\<close>: zero values.\<close>

definition zeroStickMessage :: StickMessage where
  "zeroStickMessage = \<lparr>Rx = 0, Ry = 0, Lx = 0, Ly = 0\<rparr>"

definition zeroState :: State where
  "zeroState = \<lparr>AxisData = [], Buttons = 0\<rparr>"

definition readJoystick :: "bool \<Rightarrow> joystickConfig \<Rightarrow> (State \<times> bool) list \<Rightarrow> (StickMessage \<times> State) prog" where
  "readJoystick test cfg reads = readJoystickLoop test cfg reads (zeroStickMessage, zeroState)"

subsection \<open>Reading the effects of a run\<close>

text \<open>
  The logical button whose rising edge a console line or a drone call belongs to. The stick
  output and the line about the release of R2 belong to no rising edge.
\<close>

fun edgeOf :: "effect \<Rightarrow> nat option" where
  "edgeOf (Println R2_pressed) = Some btnR2"
| "edgeOf (Println R2_released) = None"
| "edgeOf (Println L1_pressed) = Some btnL1"
| "edgeOf (Println L2_pressed) = Some btnL2"
| "edgeOf (Println R1_pressed) = Some btnR1"
| "edgeOf (Println L3_pressed) = Some btnL3"
| "edgeOf (Println R3_pressed) = Some btnR3"
| "edgeOf (Println Square_pressed) = Some btnSquare"
| "edgeOf (Println Triangle_pressed) = Some btnTriangle"
| "edgeOf (Println Circle_pressed) = Some btnCircle"
| "edgeOf (Println X_pressed) = Some btnX"
| "edgeOf (Println DPad_Left_pressed) = Some btnDL"
| "edgeOf (Println DPad_Right_pressed) = Some btnDR"
| "edgeOf (Println DPad_Up_pressed) = Some btnDU"
| "edgeOf (Println DPad_Down_pressed) = Some btnDD"
| "edgeOf (Printf_JS sm) = None"
| "edgeOf (StickChan sm) = None"
| "edgeOf (Drone SetSlowMode) = Some btnL1"
| "edgeOf (Drone Bounce) = Some btnL2"
| "edgeOf (Drone SetFastMode) = Some btnR1"
| "edgeOf (Drone PalmLand) = Some btnSquare"
| "edgeOf (Drone ThrowTakeOff) = Some btnSquare"
| "edgeOf (Drone TakeOff) = Some btnTriangle"
| "edgeOf (Drone TakePicture) = Some btnCircle"
| "edgeOf (Drone Land) = Some btnX"
| "edgeOf (Drone LeftFlip) = Some btnDL"
| "edgeOf (Drone RightFlip) = Some btnDR"
| "edgeOf (Drone ForwardFlip) = Some btnDU"
| "edgeOf (Drone BackFlip) = Some btnDD"

definition edgeEvents :: "nat \<Rightarrow> effect list \<Rightarrow> effect list" where
  "edgeEvents b es = filter (\<lambda>e. edgeOf e = Some b) es"

definition calls :: "action \<Rightarrow> effect list \<Rightarrow> nat" where
  "calls a es = length (filter (\<lambda>e. e = Drone a) es)"

text \<open>
  The buttons whose rising edge makes the pass do something: seven in both modes; L3, R3
  and R2 only print, in test mode; the D-pad only when the profile enables flips.
\<close>

definition dispatched :: "bool \<Rightarrow> joystickConfig \<Rightarrow> nat \<Rightarrow> bool" where
  "dispatched test cfg b \<longleftrightarrow>
     b \<in> {btnL1, btnL2, btnR1, btnSquare, btnTriangle, btnCircle, btnX}
     \<or> (test \<and> b \<in> {btnL3, btnR3, btnR2})
     \<or> (b \<in> {btnDL, btnDR, btnDU, btnDD} \<and> index (features cfg) flipsEnabled = Inr True)"

text \<open>The rising edge of a logical button, through the profile's table.\<close>

definition pressedButton :: "joystickConfig \<Rightarrow> State \<Rightarrow> State \<Rightarrow> nat \<Rightarrow> bool" where
  "pressedButton cfg jsState prevState b =
     (case button cfg b of Inl f \<Rightarrow> False | Inr n \<Rightarrow> pressedThisCycle jsState prevState n)"

definition whenPressed ::
  "joystickConfig \<Rightarrow> State \<Rightarrow> State \<Rightarrow> nat \<Rightarrow> effect list \<Rightarrow> effect list" where
  "whenPressed cfg jsState prevState b es =
     (if pressedButton cfg jsState prevState b then es else [])"

subsection \<open>Profile selection (setupJoystick)\<close>

datatype fatal = NoJoystickTypeSupplied | CouldNotOpen int | UnknownJoystickType string

text \<open>
  \<open>jsTypeFlag\<close> is the \<open>*string\<close> flag (\<open>None\<close> for \<open>nil\<close>), \<open>goos\<close> is \<open>runtime.GOOS\<close>, and
  \<open>opened\<close> tells whether \<open>joystick.Open(id)\<close> succeeded (\<open>jsid\<close> is the \<open>id\<close> argument). \<open>log.Fatal...\<close> ends the process;
  otherwise \<open>jsConfig\<close> is set to the profile returned here.
\<close>

definition setupJoystick :: "string option \<Rightarrow> string \<Rightarrow> int \<Rightarrow> bool \<Rightarrow> fatal + joystickConfig" where
  "setupJoystick jsTypeFlag goos jsid opened =
     (case jsTypeFlag of
        None \<Rightarrow> Inl NoJoystickTypeSupplied
      | Some jsType \<Rightarrow>
          if jsType = [] then Inl NoJoystickTypeSupplied
          else if \<not> opened then Inl (CouldNotOpen jsid)
          else if jsType = ''DualShock4'' then
            (if goos = ''windows'' then Inr dualShock4ConfigWin else Inr dualShock4Config)
          else if jsType = ''HotasX'' then Inr tflightHotasXConfig
          else if jsType = ''EightBitDoSF30Pro'' then Inr eightBitDoSF30Pro
          else if jsType = ''SteamController'' then Inr tflightSteamControllerConfig
          else Inl (UnknownJoystickType jsType))"

section \<open>Properties\<close>

subsection \<open>The profile tables, written out\<close>

lemmas table_simps = sliceLit_def btn_defs ax_defs flipsEnabled_def upt_conv_Cons

lemma buttons_dualShock4Config: "buttons dualShock4Config = [0, 1, 2, 3, 4, 6, 0, 5, 7]"
  by (simp add: dualShock4Config_def table_simps)

lemma buttons_dualShock4ConfigWin: "buttons dualShock4ConfigWin = [1, 2, 3, 0, 4, 6, 0, 5, 7]"
  by (simp add: dualShock4ConfigWin_def table_simps)

lemma buttons_eightBitDoSF30Pro:
  "buttons eightBitDoSF30Pro = [0, 1, 3, 2, 4, 6, 0, 5, 7, 0, 13, 14, 15, 16]"
  by (simp add: eightBitDoSF30Pro_def table_simps)

lemma buttons_tflightHotasXConfig:
  "buttons tflightHotasXConfig = [5, 6, 7, 4, 1, 9, 3, 0, 8, 2]"
  by (simp add: tflightHotasXConfig_def table_simps)

lemma buttons_tflightSteamControllerConfig:
  "buttons tflightSteamControllerConfig = [2, 3, 5, 4, 6, 8, 13, 7, 9, 14, 19, 20, 17, 18]"
  by (simp add: tflightSteamControllerConfig_def table_simps)

lemma axes_profiles:
  "axes dualShock4Config = [0, 1, 3, 4]"
  "axes dualShock4ConfigWin = [0, 1, 2, 3]"
  "axes eightBitDoSF30Pro = [0, 1, 2, 3]"
  "axes tflightHotasXConfig = [4, 2, 0, 1]"
  "axes tflightSteamControllerConfig = [0, 1, 2, 3]"
  by (simp_all add: dualShock4Config_def dualShock4ConfigWin_def eightBitDoSF30Pro_def
      tflightHotasXConfig_def tflightSteamControllerConfig_def table_simps)

lemma features_profiles:
  "features dualShock4Config = [False]"
  "features dualShock4ConfigWin = [False]"
  "features eightBitDoSF30Pro = [True]"
  "features tflightHotasXConfig = [False]"
  "features tflightSteamControllerConfig = [True]"
  by (simp_all add: dualShock4Config_def dualShock4ConfigWin_def eightBitDoSF30Pro_def
      tflightHotasXConfig_def tflightSteamControllerConfig_def table_simps)

subsection \<open>Slice indexing\<close>

lemma axisData_Inr:
  "axisData cfg jsState a = Inr v \<longleftrightarrow>
     a < length (axes cfg) \<and> 0 \<le> axes cfg ! a \<and> axes cfg ! a < int (length (AxisData jsState))
     \<and> v = AxisData jsState ! nat (axes cfg ! a)"
  by (auto simp: axisData_def thenDo_def index_def indexInt_def)

subsection \<open>Narrowing to \<open>int16\<close>\<close>

lemma sint16: "sint (word_of_int m :: int16) = (m + 32768) mod 65536 - 32768"
  by (simp add: sint_sbintrunc' signed_take_bit_eq_take_bit_shift take_bit_eq_mod)

lemma mod_shift: "0 \<le> r \<Longrightarrow> r < n \<Longrightarrow> x = r + k * n \<Longrightarrow> x mod n = (r::int)"
  by simp

lemma sint16_small: "- 32768 \<le> m \<Longrightarrow> m < 32768 \<Longrightarrow> sint (word_of_int m :: int16) = m"
  unfolding sint16 using mod_shift [of "m + 32768" 65536 "m + 32768" 0] by simp

lemma sint16_wrap:
  assumes "32768 < m" "m \<le> 65535"
  shows "sint (word_of_int m :: int16) = m - 65536"
  unfolding sint16 using assms mod_shift [of "m - 32768" 65536 "m + 32768" 1] by simp

lemma sint16_neg_wrap:
  assumes "32768 < m" "m \<le> 65535"
  shows "sint (- word_of_int m :: int16) = 65536 - m"
proof -
  have e: "- word_of_int m = (word_of_int (- m) :: int16)" by simp
  show ?thesis
    unfolding e sint16
    using assms mod_shift [of "98304 - m" 65536 "- m + 32768" "- 1"] by simp
qed

lemma readAxes_eq:
  assumes "axisData cfg jsState axLeftX = Inr lx" "axisData cfg jsState axLeftY = Inr ly"
    "axisData cfg jsState axRightX = Inr rx" "axisData cfg jsState axRightY = Inr ry"
  shows "readAxes cfg jsState sm = Inr
     \<lparr>Rx = (if lx = 32768 then 32767 else word_of_int lx),
      Ry = (if ly = 32768 then - 32767 else - word_of_int ly),
      Lx = (if rx = 32768 then 32767 else word_of_int rx),
      Ly = (if ry = 32768 then - 32767 else - word_of_int ry)\<rparr>"
  using assms by (simp add: readAxes_def thenDo_def Let_def)

text \<open>
  C10. Whenever the four axis reads are in range, lines 249-271 complete, and a raw value
  \<open>m\<close> with \<open>32768 < m \<le> 65535\<close> is narrowed by two's-complement wrap-around: before the
  dead zone the X fields (\<open>Rx\<close> from LeftX, \<open>Lx\<close> from RightX) hold the negative \<open>m - 65536\<close>
  and the Y fields (\<open>Ry\<close> from LeftY, \<open>Ly\<close> from RightY) the positive \<open>65536 - m\<close>. The
  clamp is taken at the raw value 32768 only; every other raw value is narrowed as it is.
\<close>

theorem readAxes_wraparound:
  assumes "axisData cfg jsState axLeftX = Inr lx" "axisData cfg jsState axLeftY = Inr ly"
    "axisData cfg jsState axRightX = Inr rx" "axisData cfg jsState axRightY = Inr ry"
  shows "\<exists>sm'. readAxes cfg jsState sm = Inr sm'
     \<and> Rx sm' = (if lx = 32768 then 32767 else word_of_int lx)
     \<and> Ry sm' = (if ly = 32768 then - 32767 else - word_of_int ly)
     \<and> Lx sm' = (if rx = 32768 then 32767 else word_of_int rx)
     \<and> Ly sm' = (if ry = 32768 then - 32767 else - word_of_int ry)
     \<and> (32768 < lx \<and> lx \<le> 65535 \<longrightarrow> sint (Rx sm') = lx - 65536)
     \<and> (32768 < ly \<and> ly \<le> 65535 \<longrightarrow> sint (Ry sm') = 65536 - ly)
     \<and> (32768 < rx \<and> rx \<le> 65535 \<longrightarrow> sint (Lx sm') = rx - 65536)
     \<and> (32768 < ry \<and> ry \<le> 65535 \<longrightarrow> sint (Ly sm') = 65536 - ry)"
  unfolding readAxes_eq [OF assms]
  by (simp add: sint16_wrap sint16_neg_wrap)

theorem readAxes_wraparound_witness:
  "\<exists>sm'. readAxes tflightSteamControllerConfig
       \<lparr>AxisData = [40000, 50000, 32769, 65535], Buttons = 0\<rparr> zeroStickMessage = Inr sm'
     \<and> sint (Rx sm') = - 25536 \<and> sint (Ry sm') = 15536
     \<and> sint (Lx sm') = - 32767 \<and> sint (Ly sm') = 1"
  using readAxes_wraparound [of tflightSteamControllerConfig
      "\<lparr>AxisData = [40000, 50000, 32769, 65535], Buttons = 0\<rparr>" 40000 50000 32769 65535
      zeroStickMessage]
  by (simp add: axisData_Inr axes_profiles ax_defs) blast

subsection \<open>Sequencing\<close>

lemma andThen_may_Inr: "andThen (may (Inr a)) k = k a"
  by (simp add: andThen_def may_def split: prod.splits)

lemma andThen_may_Inl: "andThen (may (Inl f)) k = ([], Inl f)"
  by (simp add: andThen_def may_def)

lemma andThen_ok: "andThen (ok a) k = k a"
  by (simp add: andThen_def ok_def split: prod.splits)

lemma andThen_emit: "andThen (emit e) k = (e # fst (k ()), snd (k ()))"
  by (simp add: andThen_def emit_def split: prod.splits)

lemma fst_andThen:
  "fst (andThen m k) = fst m @ (case snd m of Inl f \<Rightarrow> [] | Inr a \<Rightarrow> fst (k a))"
  by (simp add: andThen_def split: prod.splits sum.splits)

lemma snd_andThen:
  "snd (andThen m k) = (case snd m of Inl f \<Rightarrow> Inl f | Inr a \<Rightarrow> snd (k a))"
  by (simp add: andThen_def split: prod.splits sum.splits)

subsection \<open>Dead zone and division\<close>

lemma applyDeadZone_eq:
  "applyDeadZone sm = \<lparr>Rx = deadZoned (Rx sm), Ry = deadZoned (Ry sm),
     Lx = deadZoned (Lx sm), Ly = deadZoned (Ly sm)\<rparr>"
  by (simp add: applyDeadZone_def deadZoned_def Let_def)

lemma sint_range16: "- 32768 \<le> sint (v :: int16)" "sint (v :: int16) \<le> 32767"
  using sint_ge [of v] sint_lt [of v] by simp_all

lemma sint_neg16: "sint (v :: int16) \<noteq> - 32768 \<Longrightarrow> sint (- v) = - sint v"
proof -
  assume a: "sint v \<noteq> - 32768"
  have "- v = word_of_int (- sint v)" by simp
  then have "sint (- v) = sint (word_of_int (- sint v) :: int16)" by simp
  also have "\<dots> = - sint v"
    using a sint_range16 [of v] by (intro sint16_small) simp_all
  finally show ?thesis .
qed

lemma sint_neg16_min: "sint (v :: int16) = - 32768 \<Longrightarrow> sint (- v) = - 32768"
proof -
  assume a: "sint v = - 32768"
  have "v = word_of_int (sint v)" by simp
  then have "v = - 32768" using a by simp
  then show ?thesis by simp
qed

lemma intAbs_less_deadZone:
  "intAbs v <s deadZone \<longleftrightarrow> \<bar>sint v\<bar> < 2000 \<or> sint v = - 32768"
proof (cases "sint v = - 32768")
  case True
  then show ?thesis
    by (simp add: intAbs_def deadZone_def word_sless_alt sint_neg16_min)
next
  case False
  then show ?thesis
    by (auto simp: intAbs_def deadZone_def word_sless_alt sint_neg16)
qed

lemma deadZoned_zero: "\<bar>sint v\<bar> < 2000 \<Longrightarrow> deadZoned v = 0"
  by (simp add: deadZoned_def intAbs_less_deadZone)

lemma deadZoned_keep: "2000 \<le> \<bar>sint v\<bar> \<Longrightarrow> sint v \<noteq> - 32768 \<Longrightarrow> deadZoned v = v"
  by (simp add: deadZoned_def intAbs_less_deadZone)

lemma sint_div16_3: "sint (div16 v 3) = sgn (sint v) * (\<bar>sint v\<bar> div 3)"
proof -
  have s3: "sint (3 :: int16) = 3" by simp
  have b: "- 32768 \<le> sgn (sint v) * (\<bar>sint v\<bar> div 3)" "sgn (sint v) * (\<bar>sint v\<bar> div 3) < 32768"
    using sint_range16 [of v] by (auto simp: sgn_if)
  have e: "sint v sdiv 3 = sgn (sint v) * (\<bar>sint v\<bar> div 3)"
    by (simp add: signed_divide_int_def)
  show ?thesis
    unfolding div16_def s3 e by (rule sint16_small [OF b])
qed

lemma div16_zero: "div16 0 3 = 0"
  by (simp add: div16_def)

subsection \<open>The normalised sticks in closed form\<close>

lemma precision_eq:
  assumes "button cfg btnR2 = Inr r2"
  shows "precision test cfg jsState prevState sm =
     (r2Lines test (isDown (Buttons jsState) r2) (isDown (Buttons prevState) r2),
      Inr \<lparr>Rx = scaled (isDown (Buttons jsState) r2) (Rx sm),
           Ry = scaled (isDown (Buttons jsState) r2) (Ry sm),
           Lx = scaled (isDown (Buttons jsState) r2) (Lx sm),
           Ly = scaled (isDown (Buttons jsState) r2) (Ly sm)\<rparr>)"
  using assms
  by (simp add: precision_def andThen_def may_def ok_def emit_def r2Lines_def scaled_def)

lemma normalizeSticks_eq:
  assumes "readAxes cfg jsState sm = Inr sm0" "button cfg btnR2 = Inr r2"
  shows "normalizeSticks test cfg jsState prevState sm =
     (r2Lines test (isDown (Buttons jsState) r2) (isDown (Buttons prevState) r2),
      Inr \<lparr>Rx = scaled (isDown (Buttons jsState) r2) (deadZoned (Rx sm0)),
           Ry = scaled (isDown (Buttons jsState) r2) (deadZoned (Ry sm0)),
           Lx = scaled (isDown (Buttons jsState) r2) (deadZoned (Lx sm0)),
           Ly = scaled (isDown (Buttons jsState) r2) (deadZoned (Ly sm0))\<rparr>)"
  using assms
  by (simp add: normalizeSticks_def andThen_may_Inr precision_eq applyDeadZone_eq)

lemma scaled_zero: "scaled d 0 = 0"
  by (simp add: scaled_def div16_zero)

lemma scaled_deadZoned_zero: "\<bar>sint v\<bar> < 2000 \<Longrightarrow> scaled d (deadZoned v) = 0"
  by (simp add: deadZoned_zero scaled_def div16_zero)

lemma isDown_examples: "isDown 512 9" "\<not> isDown 0 9" "\<not> isDown 511 9" "isDown 0x80000 19" "\<not> isDown 0xFFFFFFFF 32"
  by (simp_all add: isDown_def)

lemma button_steam_R2: "button tflightSteamControllerConfig btnR2 = Inr 9"
  by (simp add: button_def index_def buttons_tflightSteamControllerConfig btn_defs)

lemma readAxes_ex: "readAxes tflightSteamControllerConfig
     \<lparr>AxisData = [1999, 1999, - 1999, 65000], Buttons = 512\<rparr> zeroStickMessage
   = Inr \<lparr>Rx = 1999, Ry = - 1999, Lx = - 1999, Ly = 536\<rparr>"
  by (simp add: readAxes_def thenDo_def axisData_def index_def indexInt_def axes_profiles ax_defs Let_def zeroStickMessage_def)


text \<open>
  C4. When the axis reads and the R2 lookup are in range, lines 249-297 complete, and each
  field of the result is the narrowed and (for Y) already inverted value \<open>v\<close> of its own axis,
  put through the dead zone first and through the precision scaling second. A value with
  \<open>\<bar>v\<bar> < 2000\<close> leaves the dead zone as 0 and stays 0 in the result, whether R2 is down or
  not. Each field depends on its own axis only.
\<close>

theorem dead_zone_between_inversion_and_scaling:
  assumes "readAxes cfg jsState sm = Inr sm0" "button cfg btnR2 = Inr r2"
  shows "\<exists>es sm'. normalizeSticks test cfg jsState prevState sm = (es, Inr sm')
     \<and> Rx sm' = scaled (isDown (Buttons jsState) r2) (deadZoned (Rx sm0))
     \<and> Ry sm' = scaled (isDown (Buttons jsState) r2) (deadZoned (Ry sm0))
     \<and> Lx sm' = scaled (isDown (Buttons jsState) r2) (deadZoned (Lx sm0))
     \<and> Ly sm' = scaled (isDown (Buttons jsState) r2) (deadZoned (Ly sm0))
     \<and> (\<bar>sint (Rx sm0)\<bar> < 2000 \<longrightarrow> deadZoned (Rx sm0) = 0 \<and> Rx sm' = 0)
     \<and> (\<bar>sint (Ry sm0)\<bar> < 2000 \<longrightarrow> deadZoned (Ry sm0) = 0 \<and> Ry sm' = 0)
     \<and> (\<bar>sint (Lx sm0)\<bar> < 2000 \<longrightarrow> deadZoned (Lx sm0) = 0 \<and> Lx sm' = 0)
     \<and> (\<bar>sint (Ly sm0)\<bar> < 2000 \<longrightarrow> deadZoned (Ly sm0) = 0 \<and> Ly sm' = 0)"
  unfolding normalizeSticks_eq [OF assms]
  by (simp add: deadZoned_zero scaled_zero)

theorem dead_zone_between_inversion_and_scaling_witness:
  "\<exists>es sm'. normalizeSticks False tflightSteamControllerConfig
       \<lparr>AxisData = [1999, 1999, - 1999, 65000], Buttons = 512\<rparr> zeroState zeroStickMessage
       = (es, Inr sm')
     \<and> Rx sm' = 0 \<and> Ry sm' = 0 \<and> Lx sm' = 0 \<and> Ly sm' = 0"
  using dead_zone_between_inversion_and_scaling [OF readAxes_ex button_steam_R2, of False zeroState]
  by simp blast

lemma readAxes_Inr:
  assumes "readAxes cfg jsState sm = Inr sm0"
  shows "\<exists>lx ly rx ry. axisData cfg jsState axLeftX = Inr lx \<and> axisData cfg jsState axLeftY = Inr ly
     \<and> axisData cfg jsState axRightX = Inr rx \<and> axisData cfg jsState axRightY = Inr ry"
  using assms by (auto simp: readAxes_def thenDo_def Let_def split: sum.splits)

lemma readAxes_indep:
  assumes "readAxes cfg jsState sm = Inr sm0"
  shows "readAxes cfg jsState sm2 = Inr sm0"
proof -
  from readAxes_Inr [OF assms] obtain lx ly rx ry where
    a: "axisData cfg jsState axLeftX = Inr lx" "axisData cfg jsState axLeftY = Inr ly"
       "axisData cfg jsState axRightX = Inr rx" "axisData cfg jsState axRightY = Inr ry"
    by blast
  show ?thesis using assms unfolding readAxes_eq [OF a] .
qed

lemma deadZoned_numerals:
  "deadZoned 32767 = 32767" "deadZoned (- 32767) = - 32767" "deadZoned (- 1) = 0" "deadZoned 1 = 0"
  "deadZoned (- 2001) = - 2001" "deadZoned 30000 = 30000" "deadZoned 0 = 0"
  by (simp_all add: deadZoned_def intAbs_less_deadZone)

lemma div16_numerals:
  "div16 32767 3 = 10922" "div16 (- 32767) 3 = - 10922" "div16 (- 2001) 3 = - 667" "div16 30000 3 = 10000"
  by (simp_all add: div16_def signed_divide_int_def)


lemma sint_scaled:
  "sint (scaled down v) = (if down then sgn (sint v) * (\<bar>sint v\<bar> div 3) else sint v)"
  by (simp add: scaled_def sint_div16_3)

lemma readAxes_ex2: "readAxes tflightSteamControllerConfig
     \<lparr>AxisData = [- 2001, 2001, 30000, 32768], Buttons = b\<rparr> zeroStickMessage
   = Inr \<lparr>Rx = - 2001, Ry = - 2001, Lx = 30000, Ly = - 32767\<rparr>"
  by (simp add: readAxes_def thenDo_def axisData_def index_def indexInt_def axes_profiles ax_defs Let_def zeroStickMessage_def)

text \<open>
  C5. When the axis reads and the R2 lookup are in range, lines 249-297 complete. If the R2
  bit is set in the current mask, each of the four fields is its dead-zoned value divided
  by 3 with the quotient truncated towards zero (\<open>sgn v * (\<bar>v\<bar> div 3)\<close>); if the bit is
  clear, each field is its dead-zoned value unchanged. The result is the same whatever the
  previous state, the previous content of \<open>sm\<close> and the mode are: nothing is carried over
  from earlier passes.
\<close>

theorem precision_scaling:
  assumes "readAxes cfg jsState sm = Inr sm0" "button cfg btnR2 = Inr r2"
  shows "\<exists>es sm'. normalizeSticks test cfg jsState prevState sm = (es, Inr sm')
     \<and> sint (Rx sm') = (if isDown (Buttons jsState) r2
          then sgn (sint (deadZoned (Rx sm0))) * (\<bar>sint (deadZoned (Rx sm0))\<bar> div 3)
          else sint (deadZoned (Rx sm0)))
     \<and> sint (Ry sm') = (if isDown (Buttons jsState) r2
          then sgn (sint (deadZoned (Ry sm0))) * (\<bar>sint (deadZoned (Ry sm0))\<bar> div 3)
          else sint (deadZoned (Ry sm0)))
     \<and> sint (Lx sm') = (if isDown (Buttons jsState) r2
          then sgn (sint (deadZoned (Lx sm0))) * (\<bar>sint (deadZoned (Lx sm0))\<bar> div 3)
          else sint (deadZoned (Lx sm0)))
     \<and> sint (Ly sm') = (if isDown (Buttons jsState) r2
          then sgn (sint (deadZoned (Ly sm0))) * (\<bar>sint (deadZoned (Ly sm0))\<bar> div 3)
          else sint (deadZoned (Ly sm0)))
     \<and> snd (normalizeSticks test2 cfg jsState prevState2 sm2) = Inr sm'"
  unfolding normalizeSticks_eq [OF assms] normalizeSticks_eq [OF readAxes_indep [OF assms(1)] assms(2)]
  by (simp add: sint_scaled)

theorem precision_scaling_witness:
  "(\<exists>es sm'. normalizeSticks False tflightSteamControllerConfig
       \<lparr>AxisData = [- 2001, 2001, 30000, 32768], Buttons = 512\<rparr> zeroState zeroStickMessage
       = (es, Inr sm')
     \<and> sint (Rx sm') = - 667 \<and> sint (Ry sm') = - 667 \<and> sint (Lx sm') = 10000
     \<and> sint (Ly sm') = - 10922)
   \<and> (\<exists>es sm'. normalizeSticks False tflightSteamControllerConfig
       \<lparr>AxisData = [- 2001, 2001, 30000, 32768], Buttons = 0\<rparr> zeroState zeroStickMessage
       = (es, Inr sm')
     \<and> sint (Rx sm') = - 2001 \<and> sint (Ry sm') = - 2001 \<and> sint (Lx sm') = 30000
     \<and> sint (Ly sm') = - 32767)"
proof -
  have a: "\<exists>es sm'. normalizeSticks False tflightSteamControllerConfig
       \<lparr>AxisData = [- 2001, 2001, 30000, 32768], Buttons = 512\<rparr> zeroState zeroStickMessage
       = (es, Inr sm')
     \<and> sint (Rx sm') = - 667 \<and> sint (Ry sm') = - 667 \<and> sint (Lx sm') = 10000
     \<and> sint (Ly sm') = - 10922"
    using precision_scaling [OF readAxes_ex2 [of 512] button_steam_R2, where test=False and prevState=zeroState]
    by (simp add: deadZoned_numerals isDown_def) blast
  have b: "\<exists>es sm'. normalizeSticks False tflightSteamControllerConfig
       \<lparr>AxisData = [- 2001, 2001, 30000, 32768], Buttons = 0\<rparr> zeroState zeroStickMessage
       = (es, Inr sm')
     \<and> sint (Rx sm') = - 2001 \<and> sint (Ry sm') = - 2001 \<and> sint (Lx sm') = 30000
     \<and> sint (Ly sm') = - 32767"
    using precision_scaling [OF readAxes_ex2 [of 0] button_steam_R2, where test=False and prevState=zeroState]
    by (simp add: deadZoned_numerals isDown_def) blast
  show ?thesis using a b by blast
qed

subsection \<open>One pass of the loop\<close>

lemma sendSticks_snd: "snd (sendSticks test sm) = Inr ()"
  by (simp add: sendSticks_def emit_def ok_def)

lemma sendSticks_operational: "sendSticks False sm = ([StickChan sm], Inr ())"
  by (simp add: sendSticks_def emit_def)

lemma readJoystickCycle_effects:
  assumes "normalizeSticks test cfg jsState prevState sm = (es, Inr sm')"
  shows "fst (readJoystickCycle test cfg jsState flying (sm, prevState)) =
     es @ fst (sendSticks test sm') @ fst (buttonActions test cfg flying jsState prevState)
       @ (case snd (buttonActions test cfg flying jsState prevState) of
            Inl f \<Rightarrow> [] | Inr u \<Rightarrow> fst (flipFeature test cfg jsState prevState))"
  using assms
  by (simp add: readJoystickCycle_def fst_andThen snd_andThen sendSticks_snd ok_def
      split: sum.splits)

lemma readJoystickCycle_result:
  assumes "normalizeSticks test cfg jsState prevState sm = (es, Inr sm')"
  shows "snd (readJoystickCycle test cfg jsState flying (sm, prevState)) =
     (case snd (buttonActions test cfg flying jsState prevState) of
        Inl f \<Rightarrow> Inl f
      | Inr u \<Rightarrow> (case snd (flipFeature test cfg jsState prevState) of
          Inl f \<Rightarrow> Inl f | Inr u \<Rightarrow> Inr (sm', jsState)))"
  using assms
  by (simp add: readJoystickCycle_def fst_andThen snd_andThen sendSticks_snd ok_def
      split: sum.splits)

lemma r2Lines_operational: "r2Lines False down wasDown = []"
  by (simp add: r2Lines_def)

lemma scaled_numerals:
  "scaled down 32767 = (if down then 10922 else 32767)"
  "scaled down (- 32767) = (if down then - 10922 else - 32767)"
  by (simp_all add: scaled_def div16_numerals)

lemma button_dualShock4_R2: "button dualShock4Config btnR2 = Inr 7"
  by (simp add: button_def index_def buttons_dualShock4Config btn_defs)

lemma axisData_dualShock4:
  assumes "5 \<le> length (AxisData jsState)"
  shows "axisData dualShock4Config jsState axLeftX = Inr (AxisData jsState ! 0)"
    "axisData dualShock4Config jsState axLeftY = Inr (AxisData jsState ! 1)"
    "axisData dualShock4Config jsState axRightX = Inr (AxisData jsState ! 3)"
    "axisData dualShock4Config jsState axRightY = Inr (AxisData jsState ! 4)"
  using assms by (auto simp: axisData_Inr axes_profiles ax_defs)

lemma readAxes_sentinel:
  assumes "readAxes cfg jsState sm = Inr sm0"
  shows "axisData cfg jsState axLeftX = Inr 32768 \<Longrightarrow> Rx sm0 = 32767"
    "axisData cfg jsState axLeftY = Inr 32768 \<Longrightarrow> Ry sm0 = - 32767"
    "axisData cfg jsState axRightX = Inr 32768 \<Longrightarrow> Lx sm0 = 32767"
    "axisData cfg jsState axRightY = Inr 32768 \<Longrightarrow> Ly sm0 = - 32767"
proof -
  from readAxes_Inr [OF assms] obtain lx ly rx ry where
    a: "axisData cfg jsState axLeftX = Inr lx" "axisData cfg jsState axLeftY = Inr ly"
       "axisData cfg jsState axRightX = Inr rx" "axisData cfg jsState axRightY = Inr ry"
    by blast
  have e: "sm0 = \<lparr>Rx = (if lx = 32768 then 32767 else word_of_int lx),
      Ry = (if ly = 32768 then - 32767 else - word_of_int ly),
      Lx = (if rx = 32768 then 32767 else word_of_int rx),
      Ly = (if ry = 32768 then - 32767 else - word_of_int ry)\<rparr>"
    using assms unfolding readAxes_eq [OF a] by simp
  show "axisData cfg jsState axLeftX = Inr 32768 \<Longrightarrow> Rx sm0 = 32767"
    using a(1) by (simp add: e)
  show "axisData cfg jsState axLeftY = Inr 32768 \<Longrightarrow> Ry sm0 = - 32767"
    using a(2) by (simp add: e)
  show "axisData cfg jsState axRightX = Inr 32768 \<Longrightarrow> Lx sm0 = 32767"
    using a(3) by (simp add: e)
  show "axisData cfg jsState axRightY = Inr 32768 \<Longrightarrow> Ly sm0 = - 32767"
    using a(4) by (simp add: e)
qed

lemma button_hotas_R2: "button tflightHotasXConfig btnR2 = Inr 8"
  by (simp add: button_def index_def buttons_tflightHotasXConfig btn_defs)

lemma readAxes_hotas5:
  "readAxes tflightHotasXConfig \<lparr>AxisData = [a0, a1, a2, a3, a4], Buttons = b\<rparr> sm =
     Inr \<lparr>Rx = (if a4 = 32768 then 32767 else word_of_int a4),
          Ry = (if a2 = 32768 then - 32767 else - word_of_int a2),
          Lx = (if a0 = 32768 then 32767 else word_of_int a0),
          Ly = (if a1 = 32768 then - 32767 else - word_of_int a1)\<rparr>"
  by (rule readAxes_eq) (simp_all add: axisData_Inr axes_profiles ax_defs)

text \<open>
  C2, as amended. Under the DualShock4 profile for a non-Windows OS, with all five axis
  slots present: when the raw value of the axis mapped to logical LeftX is 32768, the pass
  fills the field \<open>Rx\<close> from it (the left stick drives \<open>Rx\<close>/\<open>Ry\<close>), and the message sent on
  \<open>stickChan\<close> has \<open>Rx = 32767\<close> when the R2 bit (bit 7) is clear and \<open>Rx = 10922\<close> when it
  is set. The field \<open>Lx\<close> is computed from the axis mapped to logical RightX (slot 3).
\<close>

theorem dualShock4_LeftX_sentinel:
  assumes "5 \<le> length (AxisData jsState)"
    and "axisData dualShock4Config jsState axLeftX = Inr 32768"
  shows "\<exists>sm' rest. normalizeSticks False dualShock4Config jsState prevState sm = ([], Inr sm')
     \<and> Rx sm' = (if isDown (Buttons jsState) 7 then 10922 else 32767)
     \<and> Lx sm' = scaled (isDown (Buttons jsState) 7)
          (deadZoned (if AxisData jsState ! 3 = 32768 then 32767
                      else word_of_int (AxisData jsState ! 3)))
     \<and> fst (readJoystickCycle False dualShock4Config jsState flying (sm, prevState))
          = StickChan sm' # rest"
proof -
  have lx: "AxisData jsState ! 0 = 32768"
    using assms(2) unfolding axisData_dualShock4 (1) [OF assms(1)] by simp
  note ra = readAxes_eq [OF axisData_dualShock4 [OF assms(1)], of sm]
  note ns = normalizeSticks_eq [OF ra button_dualShock4_R2, of False prevState]
  show ?thesis
    unfolding readJoystickCycle_effects [OF ns] ns
    by (simp add: lx r2Lines_operational sendSticks_operational deadZoned_numerals scaled_numerals)
qed


theorem dualShock4_LeftX_sentinel_witness:
  "\<exists>sm' rest. normalizeSticks False dualShock4Config
        \<lparr>AxisData = [32768, 0, 0, 0, 0], Buttons = 0\<rparr> zeroState zeroStickMessage = ([], Inr sm')
     \<and> Rx sm' = 32767 \<and> Lx sm' = 0
     \<and> fst (readJoystickCycle False dualShock4Config
          \<lparr>AxisData = [32768, 0, 0, 0, 0], Buttons = 0\<rparr> False (zeroStickMessage, zeroState))
          = StickChan sm' # rest"
  using dualShock4_LeftX_sentinel [of "\<lparr>AxisData = [32768, 0, 0, 0, 0], Buttons = 0\<rparr>"
      zeroState zeroStickMessage False]
  by (simp add: axisData_Inr axes_profiles ax_defs isDown_def deadZoned_numerals scaled_def)

text \<open>
  C2 as stated fails: with raw LeftX = 32768 and the right stick centred at raw 0, the
  message has \<open>Lx = 0\<close>; the 32767 is in \<open>Rx\<close>.
\<close>

theorem dualShock4_LeftX_sentinel_Lx_counterexample:
  "axisData dualShock4Config \<lparr>AxisData = [32768, 0, 0, 0, 0], Buttons = 0\<rparr> axLeftX = Inr 32768
   \<and> normalizeSticks False dualShock4Config
        \<lparr>AxisData = [32768, 0, 0, 0, 0], Buttons = 0\<rparr> zeroState zeroStickMessage
      = ([], Inr \<lparr>Rx = 32767, Ry = 0, Lx = 0, Ly = 0\<rparr>)
   \<and> Lx \<lparr>Rx = 32767, Ry = 0, Lx = 0, Ly = 0\<rparr> \<noteq> 32767"
proof -
  have a: "5 \<le> length (AxisData \<lparr>AxisData = [32768, 0, 0, 0, 0], Buttons = 0\<rparr>)"
    by simp
  note ra = readAxes_eq [OF axisData_dualShock4 [OF a], of zeroStickMessage]
  note ns = normalizeSticks_eq [OF ra button_dualShock4_R2, of False zeroState]
  show ?thesis
    unfolding ns
    by (simp add: axisData_Inr axes_profiles ax_defs isDown_def deadZoned_numerals scaled_def
        r2Lines_operational)
qed



text \<open>
  C3, as amended. For every profile table and every axis whose reads are in range: when the
  raw value is 32768 (the one value the code clamps), the field holds exactly \<open>+32767\<close>
  (X: \<open>Rx\<close> from LeftX, \<open>Lx\<close> from RightX) or \<open>-32767\<close> (Y: \<open>Ry\<close> from LeftY, \<open>Ly\<close> from
  RightY) after narrowing and after the dead zone; the normalised output is that value when
  the R2 bit is clear, and \<open>+10922\<close> or \<open>-10922\<close> when it is set.
\<close>

theorem sentinel_clamp:
  assumes "readAxes cfg jsState sm = Inr sm0" "button cfg btnR2 = Inr r2"
  shows "\<exists>es sm'. normalizeSticks test cfg jsState prevState sm = (es, Inr sm')
     \<and> (axisData cfg jsState axLeftX = Inr 32768 \<longrightarrow>
          Rx sm0 = 32767 \<and> deadZoned (Rx sm0) = 32767
          \<and> Rx sm' = (if isDown (Buttons jsState) r2 then 10922 else 32767))
     \<and> (axisData cfg jsState axLeftY = Inr 32768 \<longrightarrow>
          Ry sm0 = - 32767 \<and> deadZoned (Ry sm0) = - 32767
          \<and> Ry sm' = (if isDown (Buttons jsState) r2 then - 10922 else - 32767))
     \<and> (axisData cfg jsState axRightX = Inr 32768 \<longrightarrow>
          Lx sm0 = 32767 \<and> deadZoned (Lx sm0) = 32767
          \<and> Lx sm' = (if isDown (Buttons jsState) r2 then 10922 else 32767))
     \<and> (axisData cfg jsState axRightY = Inr 32768 \<longrightarrow>
          Ly sm0 = - 32767 \<and> deadZoned (Ly sm0) = - 32767
          \<and> Ly sm' = (if isDown (Buttons jsState) r2 then - 10922 else - 32767))"
  unfolding normalizeSticks_eq [OF assms]
  by (simp add: readAxes_sentinel [OF assms(1)] deadZoned_numerals scaled_numerals)

theorem sentinel_clamp_witness:
  "\<exists>es sm'. normalizeSticks False tflightHotasXConfig
       \<lparr>AxisData = [32768, 32768, 32768, 32768, 32768], Buttons = 0\<rparr> zeroState zeroStickMessage
       = (es, Inr sm')
     \<and> Rx sm' = 32767 \<and> Ry sm' = - 32767 \<and> Lx sm' = 32767 \<and> Ly sm' = - 32767"
  using sentinel_clamp [OF readAxes_hotas5 [of 32768 32768 32768 32768 32768 0 zeroStickMessage]
      button_hotas_R2, where test=False and prevState=zeroState]
  by (simp add: axisData_Inr axes_profiles ax_defs isDown_def) blast

text \<open>
  C3 as stated fails under either reading of the sentinel. The largest unsigned 16-bit value
  65535 is narrowed to \<open>-1\<close> and ends as 0 on every axis; and the raw value 32768 with R2
  held (HotasX: bit 8) ends as \<open>+10922\<close> and \<open>-10922\<close>.
\<close>

theorem sentinel_clamp_counterexample:
  "normalizeSticks False tflightHotasXConfig
       \<lparr>AxisData = [65535, 65535, 65535, 65535, 65535], Buttons = 0\<rparr> zeroState zeroStickMessage
     = ([], Inr \<lparr>Rx = 0, Ry = 0, Lx = 0, Ly = 0\<rparr>)
   \<and> normalizeSticks False tflightHotasXConfig
       \<lparr>AxisData = [32768, 32768, 32768, 32768, 32768], Buttons = 256\<rparr> zeroState zeroStickMessage
     = ([], Inr \<lparr>Rx = 10922, Ry = - 10922, Lx = 10922, Ly = - 10922\<rparr>)
   \<and> (0 :: int16) \<noteq> 32767 \<and> (0 :: int16) \<noteq> - 32767
   \<and> (10922 :: int16) \<noteq> 32767 \<and> (- 10922 :: int16) \<noteq> - 32767"
  unfolding normalizeSticks_eq [OF readAxes_hotas5 button_hotas_R2]
  by (simp add: isDown_def deadZoned_def intAbs_less_deadZone scaled_def r2Lines_operational
      div16_numerals)

end
